theory Spec2Isabelle
  imports Complex_Main
begin

section \<open>JavaScript values\<close>

text \<open>
  The frontend receives incidents as parsed JSON and hands them around as plain
  JavaScript values. Numbers are modelled as reals (both zeros of a double are the real
  \<open>0\<close>), with \<open>NaN\<close> as a value of its own, since the code below only tests them for
  truthiness and never computes with them.
\<close>

datatype js_value =
    Undefined
  | Null
  | Boolean bool
  | Number real
  | NaN
  | String string
  | Array "js_value list"
  | Object "(string \<times> js_value) list"

text \<open>ToBoolean: \<open>undefined\<close>, \<open>null\<close>, \<open>false\<close>, \<open>0\<close>, \<open>NaN\<close> and \<open>''\<close> are falsy.\<close>

fun truthy :: "js_value \<Rightarrow> bool" where
  "truthy Undefined = False"
| "truthy Null = False"
| "truthy (Boolean b) = b"
| "truthy (Number r) = (r \<noteq> 0)"
| "truthy NaN = False"
| "truthy (String s) = (s \<noteq> [])"
| "truthy (Array xs) = True"
| "truthy (Object kvs) = True"

text \<open>\<open>a && b\<close> evaluates to \<open>a\<close> when \<open>a\<close> is falsy and to \<open>b\<close> otherwise.\<close>

definition js_and :: "js_value \<Rightarrow> js_value \<Rightarrow> js_value" where
  "js_and a b = (if truthy a then b else a)"

text \<open>A default parameter value replaces \<open>undefined\<close> only.\<close>

definition default_param :: "js_value \<Rightarrow> js_value \<Rightarrow> js_value" where
  "default_param d v = (if v = Undefined then d else v)"

section \<open>IncidentMap (src/unnamed/part_002)\<close>

text \<open>
  The fields of an incident object that \<open>IncidentMap\<close> reads to decide what is drawn
  and where. Every field is whatever the JSON held, so each is a \<open>js_value\<close>.
\<close>

record incident =
  incident_id :: js_value
  title :: js_value
  severity :: js_value
  status :: js_value
  location_lat :: js_value
  location_lng :: js_value

text \<open>
  The \<open>useEffect\<close> body: a \<open>switch\<close> on \<open>selectedFilter\<close> (strict equality against
  string literals) that computes \<open>filtered\<close>; the default branch keeps every incident.
\<close>

definition apply_filter :: "js_value \<Rightarrow> incident list \<Rightarrow> incident list" where
  "apply_filter selectedFilter incidents =
     (if selectedFilter = String ''high'' then
        filter (\<lambda>incident. severity incident = String ''high'') incidents
      else if selectedFilter = String ''medium'' then
        filter (\<lambda>incident. severity incident = String ''medium'') incidents
      else if selectedFilter = String ''low'' then
        filter (\<lambda>incident. severity incident = String ''low'') incidents
      else if selectedFilter = String ''verified'' then
        filter (\<lambda>incident. status incident = String ''verified'') incidents
      else if selectedFilter = String ''pending'' then
        filter (\<lambda>incident. status incident = String ''unverified'') incidents
      else incidents)"

text \<open>
  The component's state that matters for the markers is \<open>filteredIncidents\<close>:
  \<open>useState(incidents)\<close> starts it at the incidents prop, and the effect replaces it by
  \<open>filtered\<close> after the render.
\<close>

record incident_map_state =
  filteredIncidents :: "incident list"

definition initial_state :: "incident list \<Rightarrow> incident_map_state" where
  "initial_state incidents = \<lparr>filteredIncidents = incidents\<rparr>"

definition effect :: "js_value \<Rightarrow> incident list \<Rightarrow> incident_map_state \<Rightarrow> incident_map_state" where
  "effect selectedFilter incidents st =
     st\<lparr>filteredIncidents := apply_filter selectedFilter incidents\<rparr>"

text \<open>
  \<open>incidentsWithCoords\<close>: the callback returns \<open>incident.location_lat &&
  incident.location_lng\<close>, and \<open>Array.prototype.filter\<close> keeps the elements for which
  that value is truthy.
\<close>

definition incidentsWithCoords :: "incident list \<Rightarrow> incident list" where
  "incidentsWithCoords filtered =
     filter (\<lambda>incident. truthy (js_and (location_lat incident) (location_lng incident)))
       filtered"

text \<open>
  One \<open><Marker>\<close> per element of \<open>incidentsWithCoords\<close>, keyed by the incident id and
  placed at \<open>[location_lat, location_lng]\<close>. The marker keeps the incident it was drawn
  for (its popup shows that incident's fields).
\<close>

record marker =
  key :: js_value
  position :: "js_value \<times> js_value"
  shown :: incident

definition marker_of :: "incident \<Rightarrow> marker" where
  "marker_of incident =
     \<lparr>key = incident_id incident,
      position = (location_lat incident, location_lng incident),
      shown = incident\<rparr>"

definition render :: "incident_map_state \<Rightarrow> marker list" where
  "render st = map marker_of (incidentsWithCoords (filteredIncidents st))"

text \<open>
  Mounting \<open>IncidentMap\<close> with props \<open>selectedFilter\<close> (default \<open>'all'\<close>) and \<open>incidents\<close>
  (default \<open>[]\<close>, taken when the prop is not passed) paints twice: first from the initial
  state, then, once the effect has run, from the filtered state.
\<close>

definition IncidentMap :: "js_value \<Rightarrow> incident list option \<Rightarrow> marker list list" where
  "IncidentMap selectedFilter0 incidents0 =
     (let selectedFilter = default_param (String ''all'') selectedFilter0;
          incidents = (case incidents0 of None \<Rightarrow> [] | Some xs \<Rightarrow> xs)
      in [render (initial_state incidents),
          render (effect selectedFilter incidents (initial_state incidents))])"

text \<open>A value the claim calls missing or zero: \<open>null\<close>, \<open>undefined\<close> or exactly \<open>0\<close>.\<close>

definition null_undefined_or_zero :: "js_value \<Rightarrow> bool" where
  "null_undefined_or_zero v = (v = Null \<or> v = Undefined \<or> v = Number 0)"

section \<open>ApiService (src/frontend/src/App.jsx, second document)\<close>

text \<open>
  An \<open>async\<close> method returns a promise; what its caller sees is either the value the
  promise resolves to (\<open>Inr\<close>) or the error it rejects with (\<open>Inl\<close>). The same sum type
  describes every step that can throw inside a method.
\<close>

datatype js_error =
    TypeError
  | SyntaxError
  | Error string

type_synonym 'a completion = "js_error + 'a"

text \<open>\<open>await p\<close> followed by the rest of the block: a rejection leaves the block at once.\<close>

definition await :: "'a completion \<Rightarrow> ('a \<Rightarrow> 'b completion) \<Rightarrow> 'b completion" where
  "await p rest = (case p of Inl e \<Rightarrow> Inl e | Inr v \<Rightarrow> rest v)"

text \<open>\<open>try { block } catch (error) { handler }\<close>: whatever the block throws goes to the handler.\<close>

definition try_catch :: "'a completion \<Rightarrow> (js_error \<Rightarrow> 'a completion) \<Rightarrow> 'a completion" where
  "try_catch block handler = (case block of Inl e \<Rightarrow> handler e | Inr v \<Rightarrow> Inr v)"

text \<open>
  What is handed to \<open>fetch\<close>: the path below \<open>API_BASE_URL\<close>, the query parameters in the
  order they were appended, the HTTP method, the headers and the body.
\<close>

record request =
  path :: string
  query :: "(string \<times> js_value) list"
  http_method :: string
  headers :: "(string \<times> string) list"
  body :: "string option"

text \<open>
  A response: its \<open>ok\<close> flag, and what \<open>response.json()\<close> settles to (it rejects with a
  \<open>SyntaxError\<close> when the body is not JSON).
\<close>

record response =
  ok :: bool
  json :: "js_value completion"

text \<open>
  The world outside the class: \<open>fetch\<close>, which rejects on a network failure, and
  \<open>JSON.stringify\<close>, which throws on a value it cannot serialise.
\<close>

record env =
  fetch :: "request \<Rightarrow> response completion"
  stringify :: "js_value \<Rightarrow> string completion"

text \<open>
  Reading a property: a \<open>TypeError\<close> on \<open>null\<close> and \<open>undefined\<close>; on an object the stored
  value, or \<open>undefined\<close> when the key is absent; \<open>undefined\<close> on the other values (none of
  them has a property named \<open>region\<close>, \<open>severity\<close> or \<open>limit\<close>).
\<close>

fun get_prop :: "js_value \<Rightarrow> string \<Rightarrow> js_value completion" where
  "get_prop Undefined k = Inl TypeError"
| "get_prop Null k = Inl TypeError"
| "get_prop (Object kvs) k = Inr (case map_of kvs k of None \<Rightarrow> Undefined | Some v \<Rightarrow> v)"
| "get_prop v k = Inr Undefined"

definition get_request :: "string \<Rightarrow> (string \<times> js_value) list \<Rightarrow> request" where
  "get_request p q = \<lparr>path = p, query = q, http_method = ''GET'', headers = [], body = None\<rparr>"

text \<open>
  \<open>if (params.k) queryParams.append(k, params.k)\<close>, for one key of \<open>fetchIncidents\<close>.
\<close>

definition append_if_set ::
  "js_value \<Rightarrow> string \<Rightarrow> (string \<times> js_value) list \<Rightarrow> (string \<times> js_value) list completion" where
  "append_if_set params k queryParams =
     await (get_prop params k)
       (\<lambda>v. Inr (if truthy v then queryParams @ [(k, v)] else queryParams))"

text \<open>The request each method builds before it calls \<open>fetch\<close>.\<close>

definition fetchIncidents_request :: "js_value \<Rightarrow> request completion" where
  "fetchIncidents_request params0 =
     (let params = default_param (Object []) params0 in
      await (append_if_set params ''region'' [])
        (\<lambda>q1. await (append_if_set params ''severity'' q1)
          (\<lambda>q2. await (append_if_set params ''limit'' q2)
            (\<lambda>q3. Inr (get_request ''/incidents/'' q3)))))"

definition fetchLatestIncidents_request :: "js_value \<Rightarrow> request" where
  "fetchLatestIncidents_request limit0 =
     get_request ''/incidents/latest'' [(''limit'', default_param (Number 10) limit0)]"

definition fetchDashboard_request :: request where
  "fetchDashboard_request = get_request ''/incidents/dashboard'' []"

definition triggerCollection_request :: request where
  "triggerCollection_request =
     \<lparr>path = ''/collection/run-cycle'', query = [], http_method = ''POST'', headers = [],
      body = None\<rparr>"

definition subscribeToAlerts_request :: "env \<Rightarrow> js_value \<Rightarrow> request completion" where
  "subscribeToAlerts_request e subscriptionData =
     await (stringify e subscriptionData)
       (\<lambda>s. Inr \<lparr>path = ''/alerts/subscribe'', query = [], http_method = ''POST'',
                 headers = [(''Content-Type'', ''application/json'')], body = Some s\<rparr>)"

definition getCollectionStatus_request :: request where
  "getCollectionStatus_request = get_request ''/collection/status'' []"

definition fetchPredictions_request :: "js_value \<Rightarrow> request" where
  "fetchPredictions_request confidenceThreshold0 =
     get_request ''/predictions/''
       [(''confidence_threshold'', default_param (Number (3 / 10)) confidenceThreshold0)]"

definition fetchRiskAssessment_request :: request where
  "fetchRiskAssessment_request = get_request ''/predictions/risk-assessment'' []"

definition fetchPredictiveDashboard_request :: request where
  "fetchPredictiveDashboard_request = get_request ''/predictions/dashboard'' []"

text \<open>
  The methods. Each is one \<open>try\<close> block (build the request, \<open>await fetch\<close>, throw on a
  response that is not ok, \<open>return await response.json()\<close>) and one \<open>catch\<close> block that
  logs and returns the fallback.
\<close>

definition fetchIncidents :: "env \<Rightarrow> js_value \<Rightarrow> js_value completion" where
  "fetchIncidents e params =
     try_catch
       (await (fetchIncidents_request params)
         (\<lambda>req. await (fetch e req)
           (\<lambda>response. if \<not> ok response then Inl (Error ''Failed to fetch incidents'')
                        else json response)))
       (\<lambda>error. Inr (Array []))"

definition fetchLatestIncidents :: "env \<Rightarrow> js_value \<Rightarrow> js_value completion" where
  "fetchLatestIncidents e limit =
     try_catch
       (await (fetch e (fetchLatestIncidents_request limit))
         (\<lambda>response. if \<not> ok response then Inl (Error ''Failed to fetch latest incidents'')
                      else json response))
       (\<lambda>error. Inr (Array []))"

definition fetchDashboard :: "env \<Rightarrow> js_value completion" where
  "fetchDashboard e =
     try_catch
       (await (fetch e fetchDashboard_request)
         (\<lambda>response. if \<not> ok response then Inl (Error ''Failed to fetch dashboard data'')
                      else json response))
       (\<lambda>error. Inr Null)"

definition triggerCollection :: "env \<Rightarrow> js_value completion" where
  "triggerCollection e =
     try_catch
       (await (fetch e triggerCollection_request)
         (\<lambda>response. if \<not> ok response then Inl (Error ''Failed to trigger collection'')
                      else json response))
       (\<lambda>error. Inr Null)"

definition subscribeToAlerts :: "env \<Rightarrow> js_value \<Rightarrow> js_value completion" where
  "subscribeToAlerts e subscriptionData =
     try_catch
       (await (subscribeToAlerts_request e subscriptionData)
         (\<lambda>req. await (fetch e req)
           (\<lambda>response. if \<not> ok response then Inl (Error ''Failed to subscribe to alerts'')
                        else json response)))
       (\<lambda>error. Inr Null)"

definition getCollectionStatus :: "env \<Rightarrow> js_value completion" where
  "getCollectionStatus e =
     try_catch
       (await (fetch e getCollectionStatus_request)
         (\<lambda>response. if \<not> ok response then Inl (Error ''Failed to fetch collection status'')
                      else json response))
       (\<lambda>error. Inr Null)"

definition fetchPredictions :: "env \<Rightarrow> js_value \<Rightarrow> js_value completion" where
  "fetchPredictions e confidenceThreshold =
     try_catch
       (await (fetch e (fetchPredictions_request confidenceThreshold))
         (\<lambda>response. if \<not> ok response then Inl (Error ''Failed to fetch predictions'')
                      else json response))
       (\<lambda>error. Inr (Array []))"

definition fetchRiskAssessment :: "env \<Rightarrow> js_value completion" where
  "fetchRiskAssessment e =
     try_catch
       (await (fetch e fetchRiskAssessment_request)
         (\<lambda>response. if \<not> ok response then Inl (Error ''Failed to fetch risk assessment'')
                      else json response))
       (\<lambda>error. Inr Null)"

definition fetchPredictiveDashboard :: "env \<Rightarrow> js_value completion" where
  "fetchPredictiveDashboard e =
     try_catch
       (await (fetch e fetchPredictiveDashboard_request)
         (\<lambda>response. if \<not> ok response then Inl (Error ''Failed to fetch predictive dashboard'')
                      else json response))
       (\<lambda>error. Inr Null)"

text \<open>A call of one of the nine methods, with its arguments.\<close>

datatype api_call =
    FetchIncidents js_value
  | FetchLatestIncidents js_value
  | FetchDashboard
  | TriggerCollection
  | SubscribeToAlerts js_value
  | GetCollectionStatus
  | FetchPredictions js_value
  | FetchRiskAssessment
  | FetchPredictiveDashboard

fun call :: "env \<Rightarrow> api_call \<Rightarrow> js_value completion" where
  "call e (FetchIncidents params) = fetchIncidents e params"
| "call e (FetchLatestIncidents limit) = fetchLatestIncidents e limit"
| "call e FetchDashboard = fetchDashboard e"
| "call e TriggerCollection = triggerCollection e"
| "call e (SubscribeToAlerts subscriptionData) = subscribeToAlerts e subscriptionData"
| "call e GetCollectionStatus = getCollectionStatus e"
| "call e (FetchPredictions confidenceThreshold) = fetchPredictions e confidenceThreshold"
| "call e FetchRiskAssessment = fetchRiskAssessment e"
| "call e FetchPredictiveDashboard = fetchPredictiveDashboard e"

fun request_of :: "env \<Rightarrow> api_call \<Rightarrow> request completion" where
  "request_of e (FetchIncidents params) = fetchIncidents_request params"
| "request_of e (FetchLatestIncidents limit) = Inr (fetchLatestIncidents_request limit)"
| "request_of e FetchDashboard = Inr fetchDashboard_request"
| "request_of e TriggerCollection = Inr triggerCollection_request"
| "request_of e (SubscribeToAlerts subscriptionData) =
     subscribeToAlerts_request e subscriptionData"
| "request_of e GetCollectionStatus = Inr getCollectionStatus_request"
| "request_of e (FetchPredictions confidenceThreshold) =
     Inr (fetchPredictions_request confidenceThreshold)"
| "request_of e FetchRiskAssessment = Inr fetchRiskAssessment_request"
| "request_of e FetchPredictiveDashboard = Inr fetchPredictiveDashboard_request"

text \<open>The methods whose \<open>catch\<close> block returns \<open>[]\<close>; the others return \<open>null\<close>.\<close>

fun list_returning :: "api_call \<Rightarrow> bool" where
  "list_returning (FetchIncidents params) = True"
| "list_returning (FetchLatestIncidents limit) = True"
| "list_returning (FetchPredictions confidenceThreshold) = True"
| "list_returning c = False"

text \<open>
  The HTTP request of a call fails when the call gets as far as \<open>fetch\<close> and either
  \<open>fetch\<close> rejects (a network error) or the response is not ok.
\<close>

definition http_failure :: "env \<Rightarrow> api_call \<Rightarrow> bool" where
  "http_failure e c =
     (case request_of e c of
        Inl err \<Rightarrow> False
      | Inr req \<Rightarrow> (case fetch e req of Inl err \<Rightarrow> True | Inr response \<Rightarrow> \<not> ok response))"

section \<open>The clustering and verification core (not among the source files)\<close>

text \<open>
  The backend services that cluster posts and verify incidents (the README's
  \<open>backend/app/services\<close>) are not among the source files, which are the React frontend
  and the READMEs. Every definition of this section is therefore modelled from the
  specification's words, section by section, and says so. What the specification leaves
  open (how a source is told from a post, the similarity components, the confidence
  function, the participant estimate, distances) is a parameter; where a value had to be
  fixed (an input that is missing, a tie in both similarity and update time) the
  definition says which.
\<close>

subsection \<open>Data model (\<section>3)\<close>

text \<open>Modelled from the spec: the enumerated source kinds of a Post (\<section>3); the
  backend's own declaration is missing.\<close>

datatype source_kind = Social | Forum | News | Channel | Weather

text \<open>Modelled from the spec: the backend's sentiment type is missing; these are the
  sentiment labels of a Post (\<section>3).\<close>

datatype sentiment = Peaceful | Tense | Hostile | Neutral

text \<open>Modelled from the spec: the backend's status type is missing; these are the
  states of an Incident (\<section>3).\<close>

datatype incident_status = Unverified | Verified | Flagged_false_positive | Merged

text \<open>Modelled from the spec: the backend's severity type is missing; these are the
  severity tiers of an Incident (\<section>3).\<close>

datatype severity_tier = Low | Medium | High

text \<open>Modelled from the spec: the backend's location type is missing; a resolved
  location (\<section>3) is latitude, longitude, resolution confidence and place name.\<close>

record place =
  latitude :: real
  longitude :: real
  resolution_confidence :: real
  place_name :: string

text \<open>Modelled from the spec: the backend's Post model is missing; this is the Post
  record of \<section>3. Fields the feature extractor may fail to deliver are optional
  (\<section>6, \<section>9); \<open>cluster\<close> is the cluster reference, the id of the
  Incident the Post is linked to.\<close>

record Post =
  post_id :: string
  source_kind :: source_kind
  raw_text :: string
  published :: int
  source_url :: string
  relevance :: "real option"
  sentiment_label :: "sentiment option"
  entities :: "string list"
  raw_location :: "string option"
  resolved_location :: "place option"
  cluster :: "nat option"

text \<open>Modelled from the spec: the backend's Incident model is missing; this is the
  Incident record of \<section>3. The time window is \<open>earliest\<close> and
  \<open>latest\<close>; the moderation lock is one flag per locked field with its reason;
  \<open>merged_into\<close> is the forward reference of a merged Incident;
  \<open>updated\<close> is the update time that breaks ties in \<section>4.1. The id of an
  Incident is its position in the store below, so it is stable and never reused.\<close>

record Incident =
  inc_title :: string
  canonical_location :: "place option"
  earliest :: int
  latest :: int
  inc_status :: incident_status
  confidence :: real
  inc_severity :: severity_tier
  members :: "string list"
  status_locked :: bool
  severity_locked :: bool
  lock_reason :: string
  merged_into :: "nat option"
  updated :: int

text \<open>Modelled from the spec: the backend's database layer is missing; this is the
  abstract store of \<section>6 and \<section>9: Posts by id, and the Incidents, the one
  with id \<open>k\<close> at position \<open>k\<close>.\<close>

record store =
  stored_posts :: "string \<rightharpoonup> Post"
  stored_incidents :: "Incident list"

text \<open>Modelled from the spec: the backend's configuration is missing; these are the
  configurable values of \<section>4.1 to \<section>4.3: the clustering time window T, the
  radius R, the similarity threshold S, the corroboration counts N and K, the verification
  relevance floor, the high participant threshold and the weights of the composite
  similarity.\<close>

record config =
  time_window_T :: int
  radius_R :: real
  threshold_S :: real
  kinds_N :: nat
  sources_K :: nat
  relevance_floor :: real
  high_participants :: nat
  weight_geo :: real
  weight_time :: real
  weight_text :: real

text \<open>Modelled from the spec: the backend's NLP and geocoding helpers are missing;
  what the spec names without defining is taken as a parameter: the source a Post comes from
  (its id is source-qualified), the intensity of a sentiment label, the monotonic function
  behind the confidence score (\<section>4.2), the participant estimate (\<section>4.3), the
  great-circle distance in km and the three similarity components of \<section>4.1, the
  posterior location estimate, and the title given to a new Incident.\<close>

record capabilities =
  source_of :: "Post \<Rightarrow> string"
  intensity :: "sentiment \<Rightarrow> real"
  confidence_fn :: "nat \<Rightarrow> real \<Rightarrow> real \<Rightarrow> real \<Rightarrow> real"
  participant_estimate :: "Post list \<Rightarrow> nat"
  distance_km :: "place \<Rightarrow> place \<Rightarrow> real"
  geo_proximity :: "Post \<Rightarrow> Incident \<Rightarrow> real"
  temporal_proximity :: "Post \<Rightarrow> Incident \<Rightarrow> real"
  lexical_overlap :: "Post \<Rightarrow> Post list \<Rightarrow> real"
  estimate_location :: "Post list \<Rightarrow> place option"
  title_for :: "Post \<Rightarrow> string"

text \<open>Modelled from the spec: part of the missing data model: the member Posts of an
  Incident, its member references looked up in the store (\<section>3).\<close>

definition member_posts :: "store \<Rightarrow> Incident \<Rightarrow> Post list" where
  "member_posts s inc = List.map_filter (stored_posts s) (members inc)"

subsection \<open>Verification Engine (\<section>4.2)\<close>

text \<open>Modelled from the spec: part of the missing Verification Engine: the members
  that count toward corroboration (\<section>4.2, Failure): a Post whose feature extraction
  failed, so that no relevance score is available, does not count, though it stays a member.\<close>

definition contributing :: "Post list \<Rightarrow> Post list" where
  "contributing ps = filter (\<lambda>p. relevance p \<noteq> None) ps"

text \<open>Modelled from the spec: part of the missing Verification Engine: the number of
  distinct source kinds, weather excluded, that contribute member Posts (\<section>4.2).\<close>

definition distinct_kinds :: "Post list \<Rightarrow> nat" where
  "distinct_kinds ps =
     length (remdups (filter (\<lambda>k. k \<noteq> Weather) (map source_kind (contributing ps))))"

text \<open>Modelled from the spec: part of the missing Verification Engine: the number of
  distinct sources of any kind that contribute member Posts (\<section>4.2).\<close>

definition distinct_sources :: "capabilities \<Rightarrow> Post list \<Rightarrow> nat" where
  "distinct_sources caps ps = length (remdups (map (source_of caps) (contributing ps)))"

text \<open>Modelled from the spec: part of the missing Verification Engine: the mean
  relevance of the members (\<section>4.2); there is none when no member has a relevance
  score.\<close>

definition mean_relevance :: "Post list \<Rightarrow> real option" where
  "mean_relevance ps =
     (let rs = List.map_filter relevance ps
      in if rs = [] then None else Some (sum_list rs / real (length rs)))"

text \<open>Modelled from the spec: part of the missing Verification Engine: the
  corroboration rule of \<section>4.2: at least N distinct source kinds (weather excluded)
  or at least K distinct sources of any kind, and a mean relevance at or above the
  verification relevance floor.\<close>

definition corroborated :: "config \<Rightarrow> capabilities \<Rightarrow> Post list \<Rightarrow> bool" where
  "corroborated cfg caps ps =
     ((kinds_N cfg \<le> distinct_kinds ps \<or> sources_K cfg \<le> distinct_sources caps ps)
      \<and> (case mean_relevance ps of None \<Rightarrow> False | Some m \<Rightarrow> relevance_floor cfg \<le> m))"

text \<open>Modelled from the spec: part of the missing Verification Engine: clipping to
  \<open>[0,1]\<close> (\<section>4.2).\<close>

definition clip01 :: "real \<Rightarrow> real" where
  "clip01 x = max 0 (min 1 x)"

text \<open>Modelled from the spec: part of the missing Verification Engine: the mean
  sentiment intensity of the members that carry a sentiment label (\<section>4.2);
  \<open>0\<close> when none does.\<close>

definition mean_intensity :: "capabilities \<Rightarrow> Post list \<Rightarrow> real" where
  "mean_intensity caps ps =
     (let xs = map (intensity caps) (List.map_filter sentiment_label ps)
      in if xs = [] then 0 else sum_list xs / real (length xs))"

text \<open>Modelled from the spec: part of the missing Verification Engine: the confidence
  score of \<section>4.2: the (unspecified) monotonic function of distinct-source count,
  mean relevance, mean sentiment intensity and the resolution confidence of the canonical
  location, clipped to \<open>[0,1]\<close>. A missing input enters as \<open>0\<close>
  (reduced-confidence scoring, \<section>6).\<close>

definition compute_confidence :: "capabilities \<Rightarrow> place option \<Rightarrow> Post list \<Rightarrow> real" where
  "compute_confidence caps loc ps =
     clip01 (confidence_fn caps
       (distinct_sources caps ps)
       (case mean_relevance ps of None \<Rightarrow> 0 | Some m \<Rightarrow> m)
       (mean_intensity caps ps)
       (case loc of None \<Rightarrow> 0 | Some pl \<Rightarrow> resolution_confidence pl))"

text \<open>Modelled from the spec: the backend's Verification Engine is missing; this is
  \<open>score(incident) -> {status, confidence}\<close> of \<section>4.2. A
  moderation-locked Incident keeps its status and confidence. Otherwise an
  \<open>unverified\<close> Incident that satisfies corroboration becomes
  \<open>verified\<close>, every other status stays as it is (a verified Incident never
  reverts), and the confidence is recomputed from the current members.\<close>

definition score :: "config \<Rightarrow> capabilities \<Rightarrow> store \<Rightarrow> Incident \<Rightarrow> incident_status \<times> real" where
  "score cfg caps s inc =
     (let ps = member_posts s inc
      in if status_locked inc then (inc_status inc, confidence inc)
         else ((if inc_status inc = Unverified \<and> corroborated cfg caps ps then Verified
                else inc_status inc),
               compute_confidence caps (canonical_location inc) ps))"

subsection \<open>Severity Classifier (\<section>4.3)\<close>




subsection \<open>Clustering Engine (\<section>4.1)\<close>














text \<open>An incident in Paris and one on the equator, as the API would deliver them.\<close>

definition example_paris :: incident where
  "example_paris =
     \<lparr>incident_id = String ''inc-1'', title = String ''March'', severity = String ''high'',
      status = String ''verified'', location_lat = Number (4885 / 100),
      location_lng = Number (235 / 100)\<rparr>"

definition example_equator :: incident where
  "example_equator =
     \<lparr>incident_id = String ''inc-2'', title = String ''Strike'', severity = String ''high'',
      status = String ''verified'', location_lat = Number 0,
      location_lng = Number (3682 / 100)\<rparr>"

text \<open>
  A network that is down (\<open>fetch\<close> always rejects) and a server that answers every request
  with a status that is not ok.
\<close>

definition offline :: env where
  "offline = \<lparr>fetch = (\<lambda>req. Inl TypeError), stringify = (\<lambda>v. Inr ''{}'')\<rparr>"

definition server_error :: env where
  "server_error =
     \<lparr>fetch = (\<lambda>req. Inr \<lparr>ok = False, json = Inr (Object [(''detail'', String ''oops'')])\<rparr>),
      stringify = (\<lambda>v. Inr ''{}'')\<rparr>"

text \<open>
  The values of the spec's first scenario (\<section>8): the defaults T = 6 hours (in seconds),
  R = 50 km, S = 0.6, N = 2 and K = 3, with sample values where the spec names none, and
  simple stand-ins for the unspecified capabilities.
\<close>

definition example_config :: config where
  "example_config =
     \<lparr>time_window_T = 21600, radius_R = 50, threshold_S = 3 / 5, kinds_N = 2, sources_K = 3,
      relevance_floor = 1 / 2, high_participants = 1000,
      weight_geo = 2 / 5, weight_time = 3 / 10, weight_text = 3 / 10\<rparr>"

definition example_capabilities :: capabilities where
  "example_capabilities =
     \<lparr>source_of = source_url,
      intensity = (\<lambda>l. case l of Hostile \<Rightarrow> 1 | Tense \<Rightarrow> 1 / 2 | Peaceful \<Rightarrow> 0 | Neutral \<Rightarrow> 0),
      confidence_fn = (\<lambda>n r i c. (real n / 3 + r + i + c) / 4),
      participant_estimate = (\<lambda>ps. 0),
      distance_km = (\<lambda>a b. 111 * (\<bar>latitude a - latitude b\<bar> + \<bar>longitude a - longitude b\<bar>)),
      geo_proximity = (\<lambda>p c. 1),
      temporal_proximity = (\<lambda>p c. 1),
      lexical_overlap = (\<lambda>p ps. 1 / 2),
      estimate_location = (\<lambda>ps. case ps of [] \<Rightarrow> None | q # qs \<Rightarrow> resolved_location q),
      title_for = raw_text\<rparr>"

definition paris :: place where
  "paris =
     \<lparr>latitude = 4885 / 100, longitude = 235 / 100, resolution_confidence = 9 / 10,
      place_name = ''Paris''\<rparr>"

definition post_social :: Post where
  "post_social =
     \<lparr>post_id = ''social-1'', source_kind = Social, raw_text = ''march'', published = 0,
      source_url = ''social.example'', relevance = Some (8 / 10),
      sentiment_label = Some Hostile, entities = [], raw_location = Some ''Paris'',
      resolved_location = Some paris, cluster = None\<rparr>"

definition post_news :: Post where
  "post_news =
     \<lparr>post_id = ''news-1'', source_kind = News, raw_text = ''march grows'', published = 3600,
      source_url = ''news.example'', relevance = Some (9 / 10),
      sentiment_label = Some Hostile, entities = [], raw_location = Some ''Paris'',
      resolved_location = Some paris, cluster = None\<rparr>"

text \<open>An unverified, unlocked Incident whose members are the social and the news Post.\<close>

definition two_source_incident :: Incident where
  "two_source_incident =
     \<lparr>inc_title = ''march'', canonical_location = Some paris, earliest = 0, latest = 3600,
      inc_status = Unverified, confidence = 0, inc_severity = Low,
      members = [''social-1'', ''news-1''], status_locked = False, severity_locked = False,
      lock_reason = [], merged_into = None, updated = 3610\<rparr>"

definition two_source_store :: store where
  "two_source_store =
     \<lparr>stored_posts = [''social-1'' \<mapsto> post_social\<lparr>cluster := Some 0\<rparr>,
                       ''news-1'' \<mapsto> post_news\<lparr>cluster := Some 0\<rparr>],
      stored_incidents = [two_source_incident]\<rparr>"









section \<open>Properties of IncidentMap\<close>

lemma truthy_js_and: "truthy (js_and a b) = (truthy a \<and> truthy b)"
  by (simp add: js_and_def)

lemma not_truthy_missing: "null_undefined_or_zero v \<Longrightarrow> \<not> truthy v"
  by (auto simp: null_undefined_or_zero_def)

lemma set_apply_filter: "set (apply_filter f incidents) \<subseteq> set incidents"
  by (auto simp: apply_filter_def)

lemma set_incidentsWithCoords:
  "set (incidentsWithCoords xs) =
     {i \<in> set xs. truthy (location_lat i) \<and> truthy (location_lng i)}"
  by (auto simp: incidentsWithCoords_def truthy_js_and)

lemma render_markers:
  "set (render st) =
     marker_of ` {i \<in> set (filteredIncidents st). truthy (location_lat i) \<and> truthy (location_lng i)}"
  by (simp add: render_def set_incidentsWithCoords)

lemma shown_marker_of: "shown (marker_of i) = i"
  by (simp add: marker_of_def)

lemma frames_of_IncidentMap:
  assumes "frame \<in> set (IncidentMap f0 (Some incidents))"
  shows "\<exists>st. frame = render st \<and> set (filteredIncidents st) \<subseteq> set incidents"
proof -
  define f where "f = default_param (String ''all'') f0"
  from assms have "frame = render (initial_state incidents)
      \<or> frame = render (effect f incidents (initial_state incidents))"
    by (simp add: IncidentMap_def f_def Let_def)
  then show ?thesis
  proof
    assume "frame = render (initial_state incidents)"
    then show ?thesis by (intro exI [of _ "initial_state incidents"]) (simp add: initial_state_def)
  next
    assume "frame = render (effect f incidents (initial_state incidents))"
    then show ?thesis
      by (intro exI [of _ "effect f incidents (initial_state incidents)"])
         (simp add: effect_def set_apply_filter)
  qed
qed

text \<open>
  C9. Whatever filter is selected and whatever incident list is passed, in every frame
  that \<open>IncidentMap\<close> paints each marker stands for an incident of the list whose
  \<open>location_lat\<close> and \<open>location_lng\<close> are both truthy, and an incident whose latitude or
  longitude is \<open>null\<close>, \<open>undefined\<close> or exactly \<open>0\<close> has no marker, although it is in the
  list and may pass the filter. The same holds of a render from any state (a re-render
  after the props changed): the position of every marker has two truthy coordinates.
\<close>

theorem IncidentMap_markers_need_truthy_coordinates:
  assumes "frame \<in> set (IncidentMap selectedFilter (Some incidents))"
  shows "(\<forall>m \<in> set frame. \<exists>i \<in> set incidents.
            m = marker_of i \<and> truthy (location_lat i) \<and> truthy (location_lng i))
       \<and> (\<forall>i. null_undefined_or_zero (location_lat i) \<or> null_undefined_or_zero (location_lng i)
            \<longrightarrow> marker_of i \<notin> set frame)
       \<and> (\<forall>st. \<forall>m \<in> set (render st).
            truthy (fst (position m)) \<and> truthy (snd (position m)))"
proof -
  from frames_of_IncidentMap [OF assms] obtain st
    where frame: "frame = render st" and sub: "set (filteredIncidents st) \<subseteq> set incidents"
    by blast
  have a: "\<forall>m \<in> set frame. \<exists>i \<in> set incidents.
      m = marker_of i \<and> truthy (location_lat i) \<and> truthy (location_lng i)"
    using sub by (auto simp: frame render_markers)
  have b: "marker_of i \<notin> set frame"
    if "null_undefined_or_zero (location_lat i) \<or> null_undefined_or_zero (location_lng i)" for i
  proof
    assume "marker_of i \<in> set frame"
    then obtain j where "marker_of i = marker_of j"
      and "truthy (location_lat j)" and "truthy (location_lng j)"
      by (auto simp: frame render_markers)
    moreover from this(1) have "i = j"
      using shown_marker_of by metis
    ultimately show False
      using that not_truthy_missing by blast
  qed
  have c: "\<forall>st. \<forall>m \<in> set (render st). truthy (fst (position m)) \<and> truthy (snd (position m))"
    by (auto simp: render_markers marker_of_def)
  from a b c show ?thesis by blast
qed

theorem IncidentMap_markers_need_truthy_coordinates_witness:
  "render (effect (String ''high'') [example_paris, example_equator]
       (initial_state [example_paris, example_equator]))
     \<in> set (IncidentMap (String ''high'') (Some [example_paris, example_equator]))
   \<and> example_equator \<in> set (apply_filter (String ''high'') [example_paris, example_equator])
   \<and> marker_of example_equator
     \<notin> set (render (effect (String ''high'') [example_paris, example_equator]
         (initial_state [example_paris, example_equator])))
   \<and> render (effect (String ''high'') [example_paris, example_equator]
       (initial_state [example_paris, example_equator])) = [marker_of example_paris]"
proof -
  let ?incidents = "[example_paris, example_equator]"
  let ?frame = "render (effect (String ''high'') ?incidents (initial_state ?incidents))"
  have h: "?frame \<in> set (IncidentMap (String ''high'') (Some ?incidents))"
    by (simp add: IncidentMap_def default_param_def Let_def)
  have z: "null_undefined_or_zero (location_lat example_equator)"
    by (simp add: null_undefined_or_zero_def example_equator_def)
  from IncidentMap_markers_need_truthy_coordinates [OF h] z
  have "marker_of example_equator \<notin> set ?frame"
    by blast
  moreover have "example_equator \<in> set (apply_filter (String ''high'') ?incidents)"
    by (simp add: apply_filter_def example_equator_def example_paris_def)
  moreover have "?frame = [marker_of example_paris]"
    by (simp add: render_def effect_def initial_state_def apply_filter_def
        incidentsWithCoords_def js_and_def example_equator_def example_paris_def)
  ultimately show ?thesis using h by blast
qed

section \<open>Properties of ApiService\<close>

lemma try_catch_total: "\<exists>v. try_catch block (\<lambda>error. Inr d) = Inr v"
  by (cases block) (simp_all add: try_catch_def)

text \<open>
  The body shared by every method after the request is built: a rejected \<open>fetch\<close> or a
  response that is not ok makes the \<open>try\<close> block throw.
\<close>

lemma failed_request_caught:
  assumes "case fetch e req of Inl err \<Rightarrow> True | Inr response \<Rightarrow> \<not> ok response"
  shows "try_catch
           (await (fetch e req)
             (\<lambda>response. if \<not> ok response then Inl (Error msg) else json response))
           (\<lambda>error. Inr d) = Inr d"
  using assms by (cases "fetch e req") (simp_all add: await_def try_catch_def)

lemma call_never_rejects: "\<exists>v. call e c = Inr v"
  by (cases c)
    (simp_all add: fetchIncidents_def fetchLatestIncidents_def fetchDashboard_def
      triggerCollection_def subscribeToAlerts_def getCollectionStatus_def
      fetchPredictions_def fetchRiskAssessment_def fetchPredictiveDashboard_def
      try_catch_total)

lemma call_fallback_on_failure:
  assumes "http_failure e c"
  shows "call e c = Inr (if list_returning c then Array [] else Null)"
proof (cases c)
  case (FetchIncidents params)
  with assms obtain req where r: "fetchIncidents_request params = Inr req"
    and f: "case fetch e req of Inl err \<Rightarrow> True | Inr response \<Rightarrow> \<not> ok response"
    by (auto simp: http_failure_def split: sum.splits)
  show ?thesis
    by (simp add: FetchIncidents fetchIncidents_def r await_def [of "Inr req"]
        failed_request_caught [OF f])
next
  case (FetchLatestIncidents limit)
  with assms have f: "case fetch e (fetchLatestIncidents_request limit) of
      Inl err \<Rightarrow> True | Inr response \<Rightarrow> \<not> ok response"
    by (simp add: http_failure_def)
  show ?thesis
    by (simp add: FetchLatestIncidents fetchLatestIncidents_def failed_request_caught [OF f])
next
  case FetchDashboard
  with assms have f: "case fetch e fetchDashboard_request of
      Inl err \<Rightarrow> True | Inr response \<Rightarrow> \<not> ok response"
    by (simp add: http_failure_def)
  show ?thesis
    by (simp add: FetchDashboard fetchDashboard_def failed_request_caught [OF f])
next
  case TriggerCollection
  with assms have f: "case fetch e triggerCollection_request of
      Inl err \<Rightarrow> True | Inr response \<Rightarrow> \<not> ok response"
    by (simp add: http_failure_def)
  show ?thesis
    by (simp add: TriggerCollection triggerCollection_def failed_request_caught [OF f])
next
  case (SubscribeToAlerts subscriptionData)
  with assms obtain req where r: "subscribeToAlerts_request e subscriptionData = Inr req"
    and f: "case fetch e req of Inl err \<Rightarrow> True | Inr response \<Rightarrow> \<not> ok response"
    by (auto simp: http_failure_def split: sum.splits)
  show ?thesis
    by (simp add: SubscribeToAlerts subscribeToAlerts_def r await_def [of "Inr req"]
        failed_request_caught [OF f])
next
  case GetCollectionStatus
  with assms have f: "case fetch e getCollectionStatus_request of
      Inl err \<Rightarrow> True | Inr response \<Rightarrow> \<not> ok response"
    by (simp add: http_failure_def)
  show ?thesis
    by (simp add: GetCollectionStatus getCollectionStatus_def failed_request_caught [OF f])
next
  case (FetchPredictions confidenceThreshold)
  with assms have f: "case fetch e (fetchPredictions_request confidenceThreshold) of
      Inl err \<Rightarrow> True | Inr response \<Rightarrow> \<not> ok response"
    by (simp add: http_failure_def)
  show ?thesis
    by (simp add: FetchPredictions fetchPredictions_def failed_request_caught [OF f])
next
  case FetchRiskAssessment
  with assms have f: "case fetch e fetchRiskAssessment_request of
      Inl err \<Rightarrow> True | Inr response \<Rightarrow> \<not> ok response"
    by (simp add: http_failure_def)
  show ?thesis
    by (simp add: FetchRiskAssessment fetchRiskAssessment_def failed_request_caught [OF f])
next
  case FetchPredictiveDashboard
  with assms have f: "case fetch e fetchPredictiveDashboard_request of
      Inl err \<Rightarrow> True | Inr response \<Rightarrow> \<not> ok response"
    by (simp add: http_failure_def)
  show ?thesis
    by (simp add: FetchPredictiveDashboard fetchPredictiveDashboard_def
        failed_request_caught [OF f])
qed

text \<open>
  C10. No call of an \<open>ApiService\<close> method rejects: its promise always resolves. When the
  HTTP request of the call fails (\<open>fetch\<close> rejects, or the response is not ok), the promise
  resolves to the empty array for \<open>fetchIncidents\<close>, \<open>fetchLatestIncidents\<close> and
  \<open>fetchPredictions\<close>, and to \<open>null\<close> for the six other methods.
\<close>

theorem ApiService_never_throws:
  "(\<exists>v. call e c = Inr v)
   \<and> (http_failure e c \<longrightarrow> call e c = Inr (if list_returning c then Array [] else Null))"
  using call_never_rejects call_fallback_on_failure by blast

theorem ApiService_never_throws_witness:
  "http_failure offline (FetchIncidents (Object [(''limit'', Number 1000)]))
   \<and> call offline (FetchIncidents (Object [(''limit'', Number 1000)])) = Inr (Array [])
   \<and> http_failure server_error FetchDashboard
   \<and> call server_error FetchDashboard = Inr Null"
proof -
  have h1: "http_failure offline (FetchIncidents (Object [(''limit'', Number 1000)]))"
    by (simp add: http_failure_def fetchIncidents_request_def append_if_set_def await_def
        default_param_def offline_def)
  have h2: "http_failure server_error FetchDashboard"
    by (simp add: http_failure_def server_error_def)
  from h1 ApiService_never_throws [of offline "FetchIncidents (Object [(''limit'', Number 1000)])"]
  have "call offline (FetchIncidents (Object [(''limit'', Number 1000)])) = Inr (Array [])"
    by simp
  moreover from h2 ApiService_never_throws [of server_error FetchDashboard]
  have "call server_error FetchDashboard = Inr Null"
    by simp
  ultimately show ?thesis using h1 h2 by blast
qed

section \<open>Properties of the Verification Engine\<close>

lemma clip01_bounds: "0 \<le> clip01 x \<and> clip01 x \<le> 1"
  by (simp add: clip01_def)

lemma map_filter_relevance:
  "List.map_filter relevance ps = map (\<lambda>p. the (relevance p)) (contributing ps)"
  by (induction ps) (auto simp: List.map_filter_simps contributing_def split: option.splits)

lemma mean_relevance_eq:
  "mean_relevance ps =
     (if contributing ps = [] then None
      else Some ((\<Sum>p\<leftarrow>contributing ps. the (relevance p)) / real (length (contributing ps))))"
  by (simp add: mean_relevance_def map_filter_relevance Let_def)

lemma distinct_kinds_card:
  "distinct_kinds ps =
     card {k. k \<noteq> Weather \<and> (\<exists>p \<in> set ps. relevance p \<noteq> None \<and> source_kind p = k)}"
proof -
  have "set (filter (\<lambda>k. k \<noteq> Weather) (map source_kind (contributing ps)))
      = {k. k \<noteq> Weather \<and> (\<exists>p \<in> set ps. relevance p \<noteq> None \<and> source_kind p = k)}"
    by (auto simp: contributing_def)
  then show ?thesis
    unfolding distinct_kinds_def length_remdups_card_conv by simp
qed

lemma distinct_sources_card:
  "distinct_sources caps ps =
     card {src. \<exists>p \<in> set ps. relevance p \<noteq> None \<and> source_of caps p = src}"
proof -
  have "set (map (source_of caps) (contributing ps))
      = {src. \<exists>p \<in> set ps. relevance p \<noteq> None \<and> source_of caps p = src}"
    by (auto simp: contributing_def)
  then show ?thesis
    unfolding distinct_sources_def length_remdups_card_conv by simp
qed

text \<open>
  C5. For an Incident that is not moderation-locked, \<open>score\<close> takes an \<open>unverified\<close> Incident
  to \<open>verified\<close> exactly when at least N distinct source kinds other than weather, or at
  least K distinct sources of any kind, contribute member Posts and the mean relevance of
  those members is at least the verification relevance floor; it leaves it \<open>unverified\<close>
  otherwise, and leaves every other status as it is. The confidence it computes lies in
  \<open>[0,1]\<close>. A member contributes when it has a relevance score (\<section>4.2, Failure).
\<close>

theorem score_promotes_exactly_when_corroborated:
  assumes "\<not> status_locked inc"
  shows "(inc_status inc = Unverified \<longrightarrow>
           fst (score cfg caps s inc) =
             (if (kinds_N cfg \<le> card {k. k \<noteq> Weather \<and>
                      (\<exists>p \<in> set (member_posts s inc). relevance p \<noteq> None \<and> source_kind p = k)}
                  \<or> sources_K cfg \<le> card {src.
                      \<exists>p \<in> set (member_posts s inc). relevance p \<noteq> None \<and> source_of caps p = src})
                 \<and> contributing (member_posts s inc) \<noteq> []
                 \<and> relevance_floor cfg \<le>
                     (\<Sum>p\<leftarrow>contributing (member_posts s inc). the (relevance p))
                       / real (length (contributing (member_posts s inc)))
              then Verified else Unverified))
       \<and> (inc_status inc \<noteq> Unverified \<longrightarrow> fst (score cfg caps s inc) = inc_status inc)
       \<and> 0 \<le> snd (score cfg caps s inc) \<and> snd (score cfg caps s inc) \<le> 1"
  using assms
  by (simp add: score_def Let_def corroborated_def mean_relevance_eq compute_confidence_def
      clip01_bounds distinct_kinds_card distinct_sources_card)

lemma two_source_members:
  "member_posts two_source_store two_source_incident
     = [post_social\<lparr>cluster := Some 0\<rparr>, post_news\<lparr>cluster := Some 0\<rparr>]"
  by (simp add: member_posts_def two_source_store_def two_source_incident_def
      List.map_filter_simps)

theorem score_promotes_exactly_when_corroborated_witness:
  "\<not> status_locked two_source_incident
   \<and> inc_status two_source_incident = Unverified
   \<and> fst (score example_config example_capabilities two_source_store two_source_incident) = Verified
   \<and> 0 \<le> snd (score example_config example_capabilities two_source_store two_source_incident)
   \<and> snd (score example_config example_capabilities two_source_store two_source_incident) \<le> 1"
proof -
  have unlocked: "\<not> status_locked two_source_incident"
    by (simp add: two_source_incident_def)
  have unverified: "inc_status two_source_incident = Unverified"
    by (simp add: two_source_incident_def)
  have "{k. k \<noteq> Weather \<and> (\<exists>p \<in> set (member_posts two_source_store two_source_incident).
            relevance p \<noteq> None \<and> source_kind p = k)} = {Social, News}"
    by (auto simp: two_source_members post_social_def post_news_def simp del: not_None_eq)
  then have kinds: "kinds_N example_config \<le> card {k. k \<noteq> Weather \<and>
      (\<exists>p \<in> set (member_posts two_source_store two_source_incident).
          relevance p \<noteq> None \<and> source_kind p = k)}"
    by (simp add: example_config_def)
  have contrib: "contributing (member_posts two_source_store two_source_incident)
      = [post_social\<lparr>cluster := Some 0\<rparr>, post_news\<lparr>cluster := Some 0\<rparr>]"
    by (simp add: two_source_members contributing_def post_social_def post_news_def
        del: not_None_eq)
  have floor: "relevance_floor example_config \<le>
      (\<Sum>p\<leftarrow>contributing (member_posts two_source_store two_source_incident). the (relevance p))
        / real (length (contributing (member_posts two_source_store two_source_incident)))"
    by (simp add: contrib example_config_def post_social_def post_news_def)
  from score_promotes_exactly_when_corroborated [OF unlocked,
      where cfg = example_config and s = two_source_store and caps = example_capabilities]
    unverified kinds floor contrib
  have "fst (score example_config example_capabilities two_source_store two_source_incident)
      = Verified"
    and "0 \<le> snd (score example_config example_capabilities two_source_store two_source_incident)"
    and "snd (score example_config example_capabilities two_source_store two_source_incident) \<le> 1"
    by simp_all
  with unlocked unverified show ?thesis by blast
qed

section \<open>Properties of the Clustering Engine\<close>































end
